theory Spec2Isabelle
  imports Complex_Main
begin

section \<open>Data model (models.py)\<close>

text \<open>
  The rows of the relational store, one record per SQLAlchemy model, with the columns the
  shift and handover managers read or write. Python integers are \<open>int\<close>, nullable columns
  are \<open>option\<close>, \<open>datetime\<close> values are points of a discrete clock. The three status
  columns are strings in the schema with the documented values only; they are datatypes here.
  Event rows are not modelled: the text that \<open>generate_shift_summary\<close> renders from them is
  handed to \<open>create_handover\<close> as \<open>summary\<close>, and \<open>Report.events_count\<close> is left out.
  Every operation takes the reading of the clock as \<open>now\<close>; all calls of \<open>datetime.now()\<close>
  within one operation return it. A query's \<open>.first()\<close> is the first matching row of the table.
\<close>

type_synonym time = nat

datatype shift_status = ACTIVE | COMPLETED | HANDED_OVER

datatype handover_status = PENDING | ACCEPTED | ACCEPTED_WITH_NOTES

datatype protection_type = SHIFT | TEMPORARY_SINGLE

record user =
  u_user_id :: int
  u_role :: string
  u_object_id :: "int option"
  u_is_active :: bool

record security_object =
  o_id :: int
  o_protection_type :: protection_type

record shift =
  s_id :: int
  s_guard_id :: int
  s_object_id :: int
  s_start_time :: time
  s_end_time :: "time option"
  s_status :: shift_status
  s_created_at :: time
  s_updated_at :: time

record shift_handover =
  h_id :: int
  h_shift_id :: int
  h_handover_by_id :: int
  h_handover_to_id :: int
  h_status :: handover_status
  h_summary :: string
  h_notes :: "string option"
  h_handed_over_at :: time
  h_accepted_at :: "time option"
  h_created_at :: time

record report =
  r_id :: int
  r_shift_handover_id :: int
  r_object_id :: int
  r_shift_start :: time
  r_shift_end :: time
  r_handover_by_id :: int
  r_handover_to_id :: int
  r_notes :: string

text \<open>The store: one list of rows per table, in rowid order.\<close>

record db =
  users :: "user list"
  security_objects :: "security_object list"
  shifts :: "shift list"
  shift_handovers :: "shift_handover list"
  reports :: "report list"

text \<open>
  The primary key that the store assigns on \<open>session.flush()\<close> of a new row
  (\<open>Integer, primary_key=True, autoincrement=True\<close> on SQLite): one more than the
  largest key of the table, 1 for an empty table.
\<close>

definition next_id :: "int list \<Rightarrow> int" where
  "next_id ids = foldr max ids 0 + 1"

text \<open>
  \<open>updated_at\<close> of a shift has \<open>onupdate=datetime.now\<close>: the ORM sets it when it writes a
  row that differs from the stored one.
\<close>

definition touch :: "time \<Rightarrow> shift \<Rightarrow> shift \<Rightarrow> shift" where
  "touch now old new = (if new = old then old else new\<lparr>s_updated_at := now\<rparr>)"

section \<open>Store errors and failure results\<close>

text \<open>
  Every manager method wraps its \<open>with get_session()\<close> block in \<open>try ... except Exception\<close>,
  logs the error and returns \<open>None\<close>/\<open>False\<close> (or \<open>[]\<close>). A store error is modelled by a fault
  oracle: \<open>flt site\<close> says whether the unit of work opened at that place of the source
  raises. A unit of work that raises has written nothing. \<open>no_faults\<close> is the reliable store.
  \<open>cancel_handover\<close> and \<open>reject_handover\<close> call other managers (which open units of work of
  their own) between their first query and their commit, so they have two fault sites.
\<close>

datatype site =
    S_is_guard_active | S_get_guard | S_get_guard_object_id | S_get_object
  | S_is_user_allowed
  | S_get_active_shift | S_get_active_shift_for_object | S_get_shift
  | S_has_pending_handover_on_object
  | S_create_shift | S_complete_shift | S_mark_shift_handed_over
  | S_update_shift | S_delete_shift
  | S_create_handover | S_accept_handover | S_create_report_from_handover
  | S_cancel_handover_query | S_cancel_handover_commit
  | S_reject_handover_query | S_reject_handover_commit

type_synonym faults = "site \<Rightarrow> bool"

definition no_faults :: faults where
  "no_faults = (\<lambda>_. False)"

text \<open>
  The methods return \<open>None\<close>/\<open>False\<close> on every failure and tell the failures apart only by the
  message they log. The model returns the logged failure as a value: \<open>Inl\<close> of one of the
  tags below is the source's \<open>None\<close>/\<open>False\<close>, \<open>Inr\<close> is the id or \<open>True\<close>.
\<close>

datatype failure =
    NOT_ACTIVE | NO_OBJECT | ALREADY_ACTIVE | PENDING_HANDOVER_BLOCKS | OBJECT_OCCUPIED
  | SHIFT_NOT_FOUND | SHIFT_NOT_ACTIVE | NOT_OWNER | PROTECTION_TYPE_BLOCKS
  | RECEIVER_INACTIVE | RECEIVER_ROLE_BLOCKED | DIFFERENT_OBJECT
  | NOT_FOUND | ALREADY_RESOLVED | NOT_RECEIVER | NOT_PENDING_AND_NOT_FORCE | NOT_SENDER
  | NOT_ACCEPTED | RECEIVER_ALREADY_ACTIVE_NEEDS_FORCE
  | NO_NOTES | NOT_ALLOWED | STORE_ERROR

section \<open>Guard and object directories (guard_manager.py, object_manager.py, auth.py)\<close>

definition is_guard_active :: "faults \<Rightarrow> db \<Rightarrow> int \<Rightarrow> bool" where
  "is_guard_active flt d user_id =
     (if flt S_is_guard_active then False
      else find (\<lambda>u. u_user_id u = user_id \<and> u_is_active u) (users d) \<noteq> None)"

definition get_guard :: "faults \<Rightarrow> db \<Rightarrow> int \<Rightarrow> user option" where
  "get_guard flt d user_id =
     (if flt S_get_guard then None
      else find (\<lambda>u. u_user_id u = user_id) (users d))"

definition get_guard_object_id :: "faults \<Rightarrow> db \<Rightarrow> int \<Rightarrow> int option" where
  "get_guard_object_id flt d user_id =
     (if flt S_get_guard_object_id then None
      else case find (\<lambda>u. u_user_id u = user_id) (users d) of
             None \<Rightarrow> None
           | Some guard \<Rightarrow> u_object_id guard)"

definition get_object :: "faults \<Rightarrow> db \<Rightarrow> int \<Rightarrow> security_object option" where
  "get_object flt d object_id =
     (if flt S_get_object then None
      else find (\<lambda>obj. o_id obj = object_id) (security_objects d))"


section \<open>Shift manager (shift_manager.py)\<close>

definition get_active_shift :: "faults \<Rightarrow> db \<Rightarrow> int \<Rightarrow> shift option" where
  "get_active_shift flt d guard_id =
     (if flt S_get_active_shift then None
      else find (\<lambda>s. s_guard_id s = guard_id \<and> s_status s = ACTIVE) (shifts d))"

definition get_active_shift_for_object :: "faults \<Rightarrow> db \<Rightarrow> int \<Rightarrow> shift option" where
  "get_active_shift_for_object flt d object_id =
     (if flt S_get_active_shift_for_object then None
      else find (\<lambda>s. s_object_id s = object_id \<and> s_status s = ACTIVE) (shifts d))"

definition get_shift :: "faults \<Rightarrow> db \<Rightarrow> int \<Rightarrow> shift option" where
  "get_shift flt d shift_id =
     (if flt S_get_shift then None
      else find (\<lambda>s. s_id s = shift_id) (shifts d))"

text \<open>
  \<open>HandoverManager.has_pending_handover_on_object\<close>: the handovers of the guard that are
  PENDING, joined with their shift, on the object; a store error gives \<open>False\<close>.
\<close>

definition has_pending_handover_on_object :: "faults \<Rightarrow> db \<Rightarrow> int \<Rightarrow> int \<Rightarrow> bool" where
  "has_pending_handover_on_object flt d guard_id object_id =
     (if flt S_has_pending_handover_on_object then False
      else let handovers =
                 filter (\<lambda>h. h_handover_by_id h = guard_id \<and> h_status h = PENDING \<and>
                             list_ex (\<lambda>s. s_id s = h_shift_id h \<and> s_object_id s = object_id)
                               (shifts d))
                   (shift_handovers d)
           in length handovers > 0)"

text \<open>
  \<open>ShiftManager.create_shift\<close>. \<open>if not object_id\<close> is true for \<open>None\<close> and for 0.
\<close>

definition create_shift :: "faults \<Rightarrow> time \<Rightarrow> int \<Rightarrow> db \<Rightarrow> (failure + int) \<times> db" where
  "create_shift flt now guard_id d =
     (if \<not> is_guard_active flt d guard_id then (Inl NOT_ACTIVE, d)
      else case get_guard_object_id flt d guard_id of
             None \<Rightarrow> (Inl NO_OBJECT, d)
           | Some object_id \<Rightarrow>
               if object_id = 0 then (Inl NO_OBJECT, d)
               else if get_active_shift flt d guard_id \<noteq> None then (Inl ALREADY_ACTIVE, d)
               else if has_pending_handover_on_object flt d guard_id object_id
                 then (Inl PENDING_HANDOVER_BLOCKS, d)
               else if get_active_shift_for_object flt d object_id \<noteq> None
                 then (Inl OBJECT_OCCUPIED, d)
               else if flt S_create_shift then (Inl STORE_ERROR, d)
               else
                 let shift_id = next_id (map s_id (shifts d));
                     shift = \<lparr>s_id = shift_id, s_guard_id = guard_id, s_object_id = object_id,
                              s_start_time = now, s_end_time = None, s_status = ACTIVE,
                              s_created_at = now, s_updated_at = now\<rparr>
                 in (Inr shift_id, d\<lparr>shifts := shifts d @ [shift]\<rparr>))"

text \<open>
  A write through the ORM: the rows with the primary key of the loaded object get the new
  column values (\<open>UPDATE shifts SET ... WHERE shifts.id = ?\<close>).
\<close>

definition upd_shift :: "time \<Rightarrow> int \<Rightarrow> (shift \<Rightarrow> shift) \<Rightarrow> db \<Rightarrow> db" where
  "upd_shift now shift_id f d =
     d\<lparr>shifts := map (\<lambda>s. if s_id s = shift_id then touch now s (f s) else s) (shifts d)\<rparr>"

definition complete_shift :: "faults \<Rightarrow> time \<Rightarrow> int \<Rightarrow> db \<Rightarrow> (failure + unit) \<times> db" where
  "complete_shift flt now shift_id d =
     (if flt S_complete_shift then (Inl STORE_ERROR, d)
      else case find (\<lambda>s. s_id s = shift_id) (shifts d) of
             None \<Rightarrow> (Inl SHIFT_NOT_FOUND, d)
           | Some shift \<Rightarrow>
               if s_status shift \<noteq> ACTIVE then (Inl SHIFT_NOT_ACTIVE, d)
               else (Inr (),
                     upd_shift now shift_id
                       (\<lambda>s. s\<lparr>s_end_time := Some now, s_status := COMPLETED\<rparr>) d))"

definition mark_shift_handed_over ::
  "faults \<Rightarrow> time \<Rightarrow> int \<Rightarrow> db \<Rightarrow> (failure + unit) \<times> db" where
  "mark_shift_handed_over flt now shift_id d =
     (if flt S_mark_shift_handed_over then (Inl STORE_ERROR, d)
      else case find (\<lambda>s. s_id s = shift_id) (shifts d) of
             None \<Rightarrow> (Inl SHIFT_NOT_FOUND, d)
           | Some shift \<Rightarrow>
               (Inr (),
                upd_shift now shift_id
                  (\<lambda>s. (if s_end_time s = None then s\<lparr>s_end_time := Some now\<rparr> else s)
                         \<lparr>s_status := HANDED_OVER\<rparr>) d))"

text \<open>
  \<open>ShiftManager.update_shift\<close>: every argument that is not \<open>None\<close> overwrites its column.
  The arguments are optional; \<open>end_time\<close> cannot be reset to null through it.
\<close>

definition update_shift ::
  "faults \<Rightarrow> time \<Rightarrow> int \<Rightarrow> int option \<Rightarrow> int option \<Rightarrow> time option \<Rightarrow> time option \<Rightarrow>
     shift_status option \<Rightarrow> db \<Rightarrow> (failure + unit) \<times> db" where
  "update_shift flt now shift_id guard_id object_id start_time end_time status d =
     (if flt S_update_shift then (Inl STORE_ERROR, d)
      else case find (\<lambda>s. s_id s = shift_id) (shifts d) of
             None \<Rightarrow> (Inl SHIFT_NOT_FOUND, d)
           | Some shift \<Rightarrow>
               (Inr (),
                upd_shift now shift_id
                  (\<lambda>s. let s1 = (case guard_id of None \<Rightarrow> s | Some g \<Rightarrow> s\<lparr>s_guard_id := g\<rparr>);
                            s2 = (case object_id of None \<Rightarrow> s1 | Some ob \<Rightarrow> s1\<lparr>s_object_id := ob\<rparr>);
                            s3 = (case start_time of None \<Rightarrow> s2 | Some t \<Rightarrow> s2\<lparr>s_start_time := t\<rparr>);
                            s4 = (case end_time of None \<Rightarrow> s3 | Some t \<Rightarrow> s3\<lparr>s_end_time := Some t\<rparr>)
                        in (case status of None \<Rightarrow> s4 | Some st \<Rightarrow> s4\<lparr>s_status := st\<rparr>)) d))"

text \<open>
  \<open>ShiftManager.delete_shift\<close>: \<open>session.delete(shift)\<close> cascades
  (\<open>cascade='all, delete-orphan'\<close>) to the handovers of the shift and from those to their
  reports.
\<close>

definition delete_shift :: "faults \<Rightarrow> int \<Rightarrow> db \<Rightarrow> (failure + unit) \<times> db" where
  "delete_shift flt shift_id d =
     (if flt S_delete_shift then (Inl STORE_ERROR, d)
      else case find (\<lambda>s. s_id s = shift_id) (shifts d) of
             None \<Rightarrow> (Inl SHIFT_NOT_FOUND, d)
           | Some shift \<Rightarrow>
               (Inr (),
                d\<lparr>shifts := filter (\<lambda>s. s_id s \<noteq> shift_id) (shifts d),
                  shift_handovers := filter (\<lambda>h. h_shift_id h \<noteq> shift_id) (shift_handovers d),
                  reports :=
                    filter (\<lambda>r. \<not> list_ex (\<lambda>h. h_shift_id h = shift_id \<and>
                                                 h_id h = r_shift_handover_id r)
                                        (shift_handovers d))
                      (reports d)\<rparr>))"

section \<open>Report manager (report_manager.py)\<close>


section \<open>Handover manager (handover_manager.py)\<close>

text \<open>
  Python's \<open>str.strip()\<close>: whitespace is removed at both ends. A \<open>char\<close> stands for a code
  point below 256; these are the ones for which \<open>str.isspace\<close> holds.
\<close>

definition isspace :: "char \<Rightarrow> bool" where
  "isspace c = ((of_char c :: nat) \<in> set [9, 10, 11, 12, 13, 28, 29, 30, 31, 32, 133, 160])"

definition strip :: "string \<Rightarrow> string" where
  "strip s = rev (dropWhile isspace (rev (dropWhile isspace s)))"

text \<open>
  \<open>HandoverManager.create_handover\<close>. The handover row is committed in the method's own
  unit of work; \<open>complete_shift\<close> and \<open>mark_shift_handed_over\<close> then run in units of work of
  their own and their results are not looked at.
\<close>

definition create_handover ::
  "faults \<Rightarrow> time \<Rightarrow> string \<Rightarrow> int \<Rightarrow> int \<Rightarrow> int \<Rightarrow> db \<Rightarrow> (failure + int) \<times> db" where
  "create_handover flt now summary shift_id handover_by_id handover_to_id d =
     (case get_shift flt d shift_id of
        None \<Rightarrow> (Inl SHIFT_NOT_FOUND, d)
      | Some shift \<Rightarrow>
          if s_status shift \<noteq> ACTIVE then (Inl SHIFT_NOT_ACTIVE, d)
          else if s_guard_id shift \<noteq> handover_by_id then (Inl NOT_OWNER, d)
          else if (case get_object flt d (s_object_id shift) of
                     None \<Rightarrow> False
                   | Some obj \<Rightarrow> o_protection_type obj = TEMPORARY_SINGLE)
            then (Inl PROTECTION_TYPE_BLOCKS, d)
          else if \<not> is_guard_active flt d handover_to_id then (Inl RECEIVER_INACTIVE, d)
          else
            let handover_to_guard = get_guard flt d handover_to_id in
            if (case handover_to_guard of None \<Rightarrow> False | Some g \<Rightarrow> u_role g = ''admin'')
              then (Inl RECEIVER_ROLE_BLOCKED, d)
            else if (case handover_to_guard of None \<Rightarrow> False
                     | Some g \<Rightarrow> u_role g = ''controller'')
              then (Inl RECEIVER_ROLE_BLOCKED, d)
            else if get_guard_object_id flt d handover_by_id
                      \<noteq> get_guard_object_id flt d handover_to_id
              then (Inl DIFFERENT_OBJECT, d)
            else if flt S_create_handover then (Inl STORE_ERROR, d)
            else
              let handover_id = next_id (map h_id (shift_handovers d));
                  handover =
                    \<lparr>h_id = handover_id, h_shift_id = shift_id,
                     h_handover_by_id = handover_by_id, h_handover_to_id = handover_to_id,
                     h_status = PENDING, h_summary = summary, h_notes = None,
                     h_handed_over_at = now, h_accepted_at = None, h_created_at = now\<rparr>;
                  d1 = d\<lparr>shift_handovers := shift_handovers d @ [handover]\<rparr>;
                  d2 = snd (complete_shift flt now shift_id d1);
                  d3 = snd (mark_shift_handed_over flt now shift_id d2)
              in (Inr handover_id, d3))"

text \<open>
  \<open>HandoverManager.accept_handover\<close>. \<open>if with_notes and notes\<close> holds for a string that
  is neither \<open>None\<close> nor empty. After the commit of the new status the report and the
  receiver's shift are created by their managers; neither result changes the return value.
\<close>

definition has_notes :: "bool \<Rightarrow> string option \<Rightarrow> bool" where
  "has_notes with_notes notes =
     (with_notes \<and> (case notes of None \<Rightarrow> False | Some n \<Rightarrow> n \<noteq> []))"

text \<open>The assignments to the loaded handover: status, notes (stripped), \<open>accepted_at\<close>.\<close>

definition accepted_row ::
  "time \<Rightarrow> bool \<Rightarrow> string option \<Rightarrow> shift_handover \<Rightarrow> shift_handover" where
  "accepted_row now with_notes notes h =
     (if has_notes with_notes notes
      then h\<lparr>h_status := ACCEPTED_WITH_NOTES, h_notes := map_option strip notes\<rparr>
      else h\<lparr>h_status := ACCEPTED\<rparr>)\<lparr>h_accepted_at := Some now\<rparr>"


text \<open>
  \<open>HandoverManager.cancel_handover\<close>. The receiver's shift is deleted by \<open>delete_shift\<close> in
  a unit of work of its own, before the method's own commit. Deleting the handover cascades
  to its report (\<open>shift_handover_id\<close> is unique, so there is at most one).
\<close>

definition cancel_handover ::
  "faults \<Rightarrow> time \<Rightarrow> int \<Rightarrow> int \<Rightarrow> bool \<Rightarrow> db \<Rightarrow> (failure + unit) \<times> db" where
  "cancel_handover flt now handover_id cancelled_by_id force d =
     (if flt S_cancel_handover_query then (Inl STORE_ERROR, d)
      else case find (\<lambda>h. h_id h = handover_id) (shift_handovers d) of
             None \<Rightarrow> (Inl NOT_FOUND, d)
           | Some handover \<Rightarrow>
               if \<not> force \<and> h_status handover \<noteq> PENDING
                 then (Inl NOT_PENDING_AND_NOT_FORCE, d)
               else if h_handover_by_id handover \<noteq> cancelled_by_id then (Inl NOT_SENDER, d)
               else
                 let accepted = (h_status handover = ACCEPTED
                                  \<or> h_status handover = ACCEPTED_WITH_NOTES);
                     d1 = (if accepted
                           then (case get_active_shift flt d (h_handover_to_id handover) of
                                   None \<Rightarrow> d
                                 | Some active_shift \<Rightarrow>
                                     snd (delete_shift flt (s_id active_shift) d))
                           else d);
                     d2 = (if accepted \<and> h_status handover = ACCEPTED_WITH_NOTES
                              \<and> find (\<lambda>r. r_shift_handover_id r = handover_id) (reports d1)
                                  \<noteq> None
                           then d1\<lparr>reports :=
                                     filter (\<lambda>r. r_shift_handover_id r \<noteq> handover_id)
                                       (reports d1)\<rparr>
                           else d1);
                     d3 = (if get_shift flt d1 (h_shift_id handover) \<noteq> None
                              \<and> find (\<lambda>s. s_id s = h_shift_id handover) (shifts d2) \<noteq> None
                           then upd_shift now (h_shift_id handover)
                                  (\<lambda>s. s\<lparr>s_status := ACTIVE, s_end_time := None\<rparr>) d2
                           else d2);
                     d4 = d3\<lparr>shift_handovers :=
                               filter (\<lambda>h. h_id h \<noteq> handover_id) (shift_handovers d3),
                             reports :=
                               filter (\<lambda>r. r_shift_handover_id r \<noteq> handover_id)
                                 (reports d3)\<rparr>
                 in if flt S_cancel_handover_commit then (Inl STORE_ERROR, d1)
                    else (Inr (), d4))"



section \<open>The bot's end-of-shift handler (bot.py, end_shift_callback)\<close>


section \<open>Session layer (database.py, DatabaseManager.get_session)\<close>

text \<open>
  \<open>get_session\<close> is a generator function under \<open>@contextmanager\<close>. It is modelled as the
  coroutine it is: a state (suspended at its \<open>yield\<close> with the current \<open>retries\<close>, or
  finished), and a resume function for \<open>next(gen)\<close> and \<open>gen.throw(e)\<close> that runs the body up
  to the next \<open>yield\<close>, \<open>return\<close> or uncaught \<open>raise\<close> and lists the calls it makes on the
  session, the logger and \<open>time.sleep\<close>. The module-level \<open>get_session\<close> that the managers
  use only delegates to it.
\<close>

datatype runtime_error = Didnt_Yield | Didnt_Stop | Didnt_Stop_After_Throw

datatype exc =
    StoreError string
  | OtherError string
  | RuntimeError runtime_error

text \<open>
  \<open>StoreError msg\<close> is an \<open>OperationalError\<close> or \<open>DatabaseError\<close> whose \<open>str(e)\<close> is \<open>msg\<close>;
  \<open>OtherError\<close> is any other \<open>Exception\<close>; \<open>RuntimeError\<close> is what \<open>contextlib\<close> raises when
  the generator breaks the context-manager protocol.
\<close>

datatype effect = RunBody | Commit | Rollback | Sleep rat | Close | LogWarning | LogError

datatype gen_state = Suspended nat | Finished

datatype gen_result = Yielded | Returned | Raised exc

datatype resume = Next "exc option" | Throw exc

text \<open>\<open>Next c\<close>: the caller's block ended normally; \<open>c\<close> is what \<open>session.commit()\<close> raises, if anything.\<close>

definition lower :: "string \<Rightarrow> string" where
  "lower s = map (\<lambda>c. if 65 \<le> (of_char c :: nat) \<and> (of_char c :: nat) \<le> 90
                        then char_of ((of_char c :: nat) + 32) else c) s"

fun contains :: "string \<Rightarrow> string \<Rightarrow> bool" where
  "contains sub [] = (sub = [])"
| "contains sub (c # cs) = (take (length sub) (c # cs) = sub \<or> contains sub cs)"

definition is_locked :: "string \<Rightarrow> bool" where
  "is_locked msg =
     (let error_msg = lower msg
      in contains ''locked'' error_msg \<or> contains ''busy'' error_msg
         \<or> contains ''database is locked'' error_msg)"

text \<open>The head of \<open>while retries < max_retries\<close>: enter \<open>try: yield session\<close> or leave the loop.\<close>

definition loop_head :: "nat \<Rightarrow> nat \<Rightarrow> gen_result \<times> gen_state \<times> effect list" where
  "loop_head max_retries retries =
     (if retries < max_retries then (Yielded, Suspended retries, [])
      else (Returned, Finished, []))"

definition get_session_start :: "nat \<Rightarrow> gen_result \<times> gen_state \<times> effect list" where
  "get_session_start max_retries = loop_head max_retries 0"

text \<open>
  The \<open>except\<close> clauses and the \<open>finally\<close>, for an exception raised at the \<open>yield\<close> or by
  \<open>session.commit()\<close>. \<open>continue\<close> runs the \<open>finally\<close> and goes back to the loop head.
\<close>

definition on_exception :: "nat \<Rightarrow> nat \<Rightarrow> exc \<Rightarrow> gen_result \<times> gen_state \<times> effect list" where
  "on_exception max_retries retries e =
     (case e of
        StoreError msg \<Rightarrow>
          if is_locked msg then
            let retries' = retries + 1 in
            if retries' < max_retries then
              (case loop_head max_retries retries' of
                 (res, st, eff) \<Rightarrow>
                   (res, st,
                    [Rollback] @ (if retries' > 1 then [LogWarning] else [])
                      @ [Sleep ((1 / 2) * of_nat retries'), Close] @ eff))
            else (Raised e, Finished, [Rollback, LogError, Close])
          else (Raised e, Finished, [Rollback, LogError, Close])
      | _ \<Rightarrow> (Raised e, Finished, [Rollback, LogError, Close]))"

fun get_session_resume ::
  "nat \<Rightarrow> gen_state \<Rightarrow> resume \<Rightarrow> gen_result \<times> gen_state \<times> effect list" where
  "get_session_resume max_retries (Suspended retries) (Next None) =
     (Returned, Finished, [Commit, Close])"
| "get_session_resume max_retries (Suspended retries) (Next (Some e)) =
     (case on_exception max_retries retries e of
        (res, st, eff) \<Rightarrow> (res, st, Commit # eff))"
| "get_session_resume max_retries (Suspended retries) (Throw e) =
     on_exception max_retries retries e"
| "get_session_resume max_retries Finished r = (Returned, Finished, [])"

text \<open>
  The statement \<open>with db.get_session(max_retries) as session: body\<close>, by the protocol of
  \<open>contextlib.contextmanager\<close>: \<open>__enter__\<close> is \<open>next(gen)\<close>; the block runs once; \<open>__exit__\<close> is
  \<open>next(gen)\<close> after a normal end and \<open>gen.throw(e)\<close> after an exception, and a generator that
  yields again is a \<open>RuntimeError\<close>. \<open>body k\<close> is what the \<open>k\<close>-th execution of the block
  raises (\<open>None\<close>: it ends normally). The result is the exception the statement raises.
\<close>

definition with_session ::
  "nat \<Rightarrow> (nat \<Rightarrow> exc option) \<Rightarrow> exc option \<Rightarrow> exc option \<times> effect list" where
  "with_session max_retries body commit_outcome =
     (case get_session_start max_retries of
        (Returned, st, eff) \<Rightarrow> (Some (RuntimeError Didnt_Yield), eff)
      | (Raised e, st, eff) \<Rightarrow> (Some e, eff)
      | (Yielded, st, eff) \<Rightarrow>
          (case body 0 of
             None \<Rightarrow>
               (case get_session_resume max_retries st (Next commit_outcome) of
                  (Returned, st', eff') \<Rightarrow> (None, eff @ [RunBody] @ eff')
                | (Yielded, st', eff') \<Rightarrow>
                    (Some (RuntimeError Didnt_Stop), eff @ [RunBody] @ eff')
                | (Raised e', st', eff') \<Rightarrow> (Some e', eff @ [RunBody] @ eff'))
           | Some e \<Rightarrow>
               (case get_session_resume max_retries st (Throw e) of
                  (Returned, st', eff') \<Rightarrow> (None, eff @ [RunBody] @ eff')
                | (Yielded, st', eff') \<Rightarrow>
                    (Some (RuntimeError Didnt_Stop_After_Throw), eff @ [RunBody] @ eff')
                | (Raised e', st', eff') \<Rightarrow> (Some e', eff @ [RunBody] @ eff'))))"

section \<open>The properties, in the specification's words\<close>



text \<open>The shift created by a successful StartShift.\<close>

definition new_shift :: "time \<Rightarrow> int \<Rightarrow> int \<Rightarrow> int \<Rightarrow> shift" where
  "new_shift now shift_id guard_id object_id =
     \<lparr>s_id = shift_id, s_guard_id = guard_id, s_object_id = object_id,
      s_start_time = now, s_end_time = None, s_status = ACTIVE,
      s_created_at = now, s_updated_at = now\<rparr>"

text \<open>The handover row that CreateHandover inserts.\<close>

definition new_handover :: "time \<Rightarrow> string \<Rightarrow> int \<Rightarrow> int \<Rightarrow> int \<Rightarrow> int \<Rightarrow> shift_handover" where
  "new_handover now summary handover_id shift_id handover_by_id handover_to_id =
     \<lparr>h_id = handover_id, h_shift_id = shift_id,
      h_handover_by_id = handover_by_id, h_handover_to_id = handover_to_id,
      h_status = PENDING, h_summary = summary, h_notes = None,
      h_handed_over_at = now, h_accepted_at = None, h_created_at = now\<rparr>"

text \<open>\<open>end_time\<close> is set if and only if the status is not ACTIVE, for every shift row.\<close>

definition shift_inv :: "db \<Rightarrow> bool" where
  "shift_inv d = (\<forall>s \<in> set (shifts d). (s_end_time s \<noteq> None) = (s_status s \<noteq> ACTIVE))"


section \<open>Example states\<close>

text \<open>
  Object 1 is of type SHIFT with guards 100, 150 and 200; object 2 is TEMPORARY_SINGLE with
  guard 300. \<open>ex_db1\<close>: guard 100 has started shift 1. \<open>ex_db2\<close>: guard 100 has handed
  shift 1 over to guard 200 (handover 1, PENDING). \<open>ex_db3\<close>: guard 200 has accepted with
  notes; shift 2 and report 1 exist.
\<close>

definition ex_users :: "user list" where
  "ex_users =
     [\<lparr>u_user_id = 100, u_role = ''guard'', u_object_id = Some 1, u_is_active = True\<rparr>,
      \<lparr>u_user_id = 150, u_role = ''guard'', u_object_id = Some 1, u_is_active = True\<rparr>,
      \<lparr>u_user_id = 200, u_role = ''guard'', u_object_id = Some 1, u_is_active = True\<rparr>,
      \<lparr>u_user_id = 300, u_role = ''guard'', u_object_id = Some 2, u_is_active = True\<rparr>]"

definition ex_objects :: "security_object list" where
  "ex_objects = [\<lparr>o_id = 1, o_protection_type = SHIFT\<rparr>,
                 \<lparr>o_id = 2, o_protection_type = TEMPORARY_SINGLE\<rparr>]"

definition ex_db0 :: db where
  "ex_db0 = \<lparr>users = ex_users, security_objects = ex_objects, shifts = [],
             shift_handovers = [], reports = []\<rparr>"

definition ex_shift1 :: shift where
  "ex_shift1 = new_shift 10 1 100 1"

definition ex_db1 :: db where
  "ex_db1 = ex_db0\<lparr>shifts := [ex_shift1]\<rparr>"

definition ex_shift1_handed_over :: shift where
  "ex_shift1_handed_over =
     ex_shift1\<lparr>s_end_time := Some 20, s_status := HANDED_OVER, s_updated_at := 20\<rparr>"

definition ex_handover1 :: shift_handover where
  "ex_handover1 =
     \<lparr>h_id = 1, h_shift_id = 1, h_handover_by_id = 100, h_handover_to_id = 200,
      h_status = PENDING, h_summary = ''summary'', h_notes = None, h_handed_over_at = 20,
      h_accepted_at = None, h_created_at = 20\<rparr>"

definition ex_db2 :: db where
  "ex_db2 = ex_db0\<lparr>shifts := [ex_shift1_handed_over], shift_handovers := [ex_handover1]\<rparr>"

definition ex_report1 :: report where
  "ex_report1 =
     \<lparr>r_id = 1, r_shift_handover_id = 1, r_object_id = 1, r_shift_start = 10,
      r_shift_end = 20, r_handover_by_id = 100, r_handover_to_id = 200,
      r_notes = ''door open''\<rparr>"

definition ex_db3 :: db where
  "ex_db3 =
     ex_db0\<lparr>shifts := [ex_shift1_handed_over, new_shift 30 2 200 1],
            shift_handovers :=
              [ex_handover1\<lparr>h_status := ACCEPTED_WITH_NOTES, h_notes := Some ''door open'',
                            h_accepted_at := Some 30\<rparr>],
            reports := [ex_report1]\<rparr>"

text \<open>A store that fails in the units of work of \<open>complete_shift\<close> and \<open>mark_shift_handed_over\<close>.\<close>

definition ex_faults :: faults where
  "ex_faults = (\<lambda>s. s = S_complete_shift \<or> s = S_mark_shift_handed_over)"

text \<open>A block that fails with SQLite's lock error when first run and would succeed when run again.\<close>

definition ex_body :: "nat \<Rightarrow> exc option" where
  "ex_body k = (if k = 0 then Some (StoreError ''database is locked'') else None)"



section \<open>Auxiliary facts\<close>

lemmas ex_defs = ex_users_def ex_objects_def ex_db0_def ex_shift1_def ex_db1_def
  ex_handover1_def ex_db2_def ex_shift1_handed_over_def new_shift_def ex_db3_def ex_report1_def







section \<open>StartShift\<close>





section \<open>AcceptHandover\<close>













section \<open>Units of work\<close>

lemma touch_fields [simp]:
  "s_id (touch now s n) = s_id n" "s_guard_id (touch now s n) = s_guard_id n"
  "s_object_id (touch now s n) = s_object_id n" "s_start_time (touch now s n) = s_start_time n"
  "s_end_time (touch now s n) = s_end_time n" "s_status (touch now s n) = s_status n"
  "s_created_at (touch now s n) = s_created_at n"
  by (auto simp: touch_def)

lemma find_map_key:
  "(\<And>x. key (g x) = key x) \<Longrightarrow>
   find (\<lambda>x. key x = k) (map g xs) = map_option g (find (\<lambda>x. key x = k) xs)"
  by (induction xs) auto

lemma upd_shift_frame [simp]:
  "users (upd_shift now sid f d) = users d"
  "security_objects (upd_shift now sid f d) = security_objects d"
  "shift_handovers (upd_shift now sid f d) = shift_handovers d"
  "reports (upd_shift now sid f d) = reports d"
  by (simp_all add: upd_shift_def)

lemma find_upd_shift:
  assumes "\<And>s. s_id (f s) = s_id s"
  shows "find (\<lambda>s. s_id s = k) (shifts (upd_shift now sid f d))
         = map_option (\<lambda>s. if s_id s = sid then touch now s (f s) else s)
             (find (\<lambda>s. s_id s = k) (shifts d))"
proof -
  have "\<And>x. s_id ((\<lambda>s. if s_id s = sid then touch now s (f s) else s) x) = s_id x"
    using assms by simp
  from find_map_key [of s_id, OF this] show ?thesis
    by (simp add: upd_shift_def)
qed

lemma create_shift_failure:
  "fst (create_shift flt now g d) = Inl e \<Longrightarrow> snd (create_shift flt now g d) = d"
  by (simp add: create_shift_def Let_def split: option.splits if_splits)

lemma complete_shift_failure:
  "fst (complete_shift flt now sid d) = Inl e \<Longrightarrow> snd (complete_shift flt now sid d) = d"
  by (simp add: complete_shift_def split: option.splits if_splits)

lemma mark_shift_handed_over_failure:
  "fst (mark_shift_handed_over flt now sid d) = Inl e
   \<Longrightarrow> snd (mark_shift_handed_over flt now sid d) = d"
  by (simp add: mark_shift_handed_over_def split: option.splits if_splits)

lemma update_shift_failure:
  "fst (update_shift flt now sid a b c e' st d) = Inl e
   \<Longrightarrow> snd (update_shift flt now sid a b c e' st d) = d"
  by (simp add: update_shift_def split: option.splits if_splits)

lemma delete_shift_failure:
  "fst (delete_shift flt sid d) = Inl e \<Longrightarrow> snd (delete_shift flt sid d) = d"
  by (simp add: delete_shift_def split: option.splits if_splits)

lemma create_handover_success:
  assumes "create_handover flt now summary sid by_id to_id d = (Inr hid, d')"
  shows "\<exists>s. find (\<lambda>s. s_id s = sid) (shifts d) = Some s \<and> s_status s = ACTIVE
          \<and> s_guard_id s = by_id
          \<and> hid = next_id (map h_id (shift_handovers d))
          \<and> d' = snd (mark_shift_handed_over flt now sid
                    (snd (complete_shift flt now sid
                       (d\<lparr>shift_handovers := shift_handovers d @
                            [new_handover now summary hid sid by_id to_id]\<rparr>))))"
proof (cases "get_shift flt d sid")
  case None
  then show ?thesis using assms by (simp add: create_handover_def)
next
  case (Some s)
  then have f: "find (\<lambda>s. s_id s = sid) (shifts d) = Some s"
    by (simp add: get_shift_def split: if_splits)
  show ?thesis
    using assms Some f
    by (simp add: create_handover_def new_handover_def Let_def split: if_splits) auto
qed

lemma create_handover_failure:
  "create_handover flt now summary sid by_id to_id d = (Inl e, d') \<Longrightarrow> d' = d"
  by (cases "get_shift flt d sid") (simp_all add: create_handover_def Let_def split: if_splits)


lemma create_handover_result:
  assumes "create_handover flt now summary sid by_id to_id d = (Inr hid, d')"
  defines "d1 \<equiv> d\<lparr>shift_handovers := shift_handovers d @
                     [new_handover now summary hid sid by_id to_id]\<rparr>"
  defines "d2 \<equiv> (if flt S_complete_shift then d1
                  else upd_shift now sid
                         (\<lambda>s. s\<lparr>s_end_time := Some now, s_status := COMPLETED\<rparr>) d1)"
  shows "d' = (if flt S_mark_shift_handed_over then d2
               else upd_shift now sid
                      (\<lambda>s. (if s_end_time s = None then s\<lparr>s_end_time := Some now\<rparr> else s)
                             \<lparr>s_status := HANDED_OVER\<rparr>) d2)"
proof -
  obtain s where f: "find (\<lambda>s. s_id s = sid) (shifts d) = Some s" and a: "s_status s = ACTIVE"
    and d': "d' = snd (mark_shift_handed_over flt now sid (snd (complete_shift flt now sid d1)))"
    using create_handover_success [OF assms(1)] unfolding d1_def by blast
  have f1: "find (\<lambda>s. s_id s = sid) (shifts d1) = Some s"
    using f by (simp add: d1_def)
  have c: "snd (complete_shift flt now sid d1) = d2"
    using f1 a by (simp add: complete_shift_def d2_def)
  have "find (\<lambda>s. s_id s = sid) (shifts d2) \<noteq> None"
    using f1 by (simp add: d2_def find_upd_shift)
  then show ?thesis
    unfolding d' c by (auto simp: mark_shift_handed_over_def)
qed


lemma in_upd_shift:
  assumes "s \<in> set (shifts (upd_shift now sid f d))" and "s_id s = sid"
    and "\<And>s. s_id (f s) = s_id s"
  shows "\<exists>s0 \<in> set (shifts d). s_id s0 = sid \<and> s = touch now s0 (f s0)"
  using assms by (auto simp: upd_shift_def)

text \<open>
  C3, as amended. One unit of work (one \<open>with get_session()\<close> block) commits all of its
  writes or none, and the manager method reports a store error in it as a failure value
  rather than raising: a failed \<open>complete_shift\<close> or \<open>mark_shift_handed_over\<close> has changed
  nothing, and a CreateHandover that fails has written nothing. CreateHandover spans three
  units of work and is not atomic as a whole: when it returns the handover id the handover
  row is committed, and the source shift is HANDED_OVER with \<open>end_time = now\<close> only if
  neither later unit failed; it is left COMPLETED if only the marking failed, and left
  untouched if both failed.
\<close>

theorem units_of_work_commit_separately:
  "(\<forall>e. fst (complete_shift flt now sid d) = Inl e \<longrightarrow> snd (complete_shift flt now sid d) = d)
   \<and> (\<forall>e. fst (mark_shift_handed_over flt now sid d) = Inl e
          \<longrightarrow> snd (mark_shift_handed_over flt now sid d) = d)
   \<and> (\<forall>e. fst (create_handover flt now summary sid by_id to_id d) = Inl e
          \<longrightarrow> snd (create_handover flt now summary sid by_id to_id d) = d)
   \<and> (\<forall>hid. fst (create_handover flt now summary sid by_id to_id d) = Inr hid \<longrightarrow>
          shift_handovers (snd (create_handover flt now summary sid by_id to_id d))
            = shift_handovers d @ [new_handover now summary hid sid by_id to_id]
          \<and> (flt S_complete_shift \<and> flt S_mark_shift_handed_over
               \<longrightarrow> shifts (snd (create_handover flt now summary sid by_id to_id d)) = shifts d)
          \<and> (\<not> flt S_complete_shift \<and> flt S_mark_shift_handed_over
               \<longrightarrow> (\<forall>s \<in> set (shifts (snd (create_handover flt now summary sid by_id to_id d))).
                      s_id s = sid \<longrightarrow> s_status s = COMPLETED \<and> s_end_time s = Some now))
          \<and> (flt S_complete_shift \<and> \<not> flt S_mark_shift_handed_over
               \<longrightarrow> (\<forall>s \<in> set (shifts (snd (create_handover flt now summary sid by_id to_id d))).
                      s_id s = sid \<longrightarrow> s_status s = HANDED_OVER \<and> s_end_time s \<noteq> None))
          \<and> (\<not> flt S_complete_shift \<and> \<not> flt S_mark_shift_handed_over
               \<longrightarrow> (\<forall>s \<in> set (shifts (snd (create_handover flt now summary sid by_id to_id d))).
                      s_id s = sid \<longrightarrow> s_status s = HANDED_OVER \<and> s_end_time s = Some now)))"
proof (cases "create_handover flt now summary sid by_id to_id d")
  case (Pair r d')
  have c1: "\<forall>e. fst (complete_shift flt now sid d) = Inl e
              \<longrightarrow> snd (complete_shift flt now sid d) = d"
    using complete_shift_failure by blast
  have c2: "\<forall>e. fst (mark_shift_handed_over flt now sid d) = Inl e
              \<longrightarrow> snd (mark_shift_handed_over flt now sid d) = d"
    using mark_shift_handed_over_failure by blast
  show ?thesis
  proof (cases r)
    case (Inl e)
    then have "d' = d"
      using Pair create_handover_failure by blast
    then show ?thesis
      unfolding Pair fst_conv snd_conv using Inl c1 c2 by simp
  next
    case (Inr hid)
    then have res: "create_handover flt now summary sid by_id to_id d = (Inr hid, d')"
      using Pair by simp
    let ?fc = "\<lambda>s. s\<lparr>s_end_time := Some now, s_status := COMPLETED\<rparr>"
    let ?fm = "\<lambda>s. (if s_end_time s = None then s\<lparr>s_end_time := Some now\<rparr> else s)
                     \<lparr>s_status := HANDED_OVER\<rparr>"
    let ?d1 = "d\<lparr>shift_handovers := shift_handovers d @
                     [new_handover now summary hid sid by_id to_id]\<rparr>"
    have idc: "\<And>s. s_id (?fc s) = s_id s" and idm: "\<And>s. s_id (?fm s) = s_id s"
      by simp_all
    note d' = create_handover_result [OF res]
    have hs: "shift_handovers d' = shift_handovers d @ [new_handover now summary hid sid by_id to_id]"
      by (simp add: d')
    have both: "shifts d' = shifts d"
      if "flt S_complete_shift" "flt S_mark_shift_handed_over"
      using that by (simp add: d')
    have compl: "s_status s = COMPLETED \<and> s_end_time s = Some now"
      if "\<not> flt S_complete_shift" "flt S_mark_shift_handed_over"
        "s \<in> set (shifts d')" "s_id s = sid" for s
    proof -
      have "s \<in> set (shifts (upd_shift now sid ?fc ?d1))"
        using that by (simp add: d')
      from in_upd_shift [OF this that(4) idc] show ?thesis
        by auto
    qed
    have mark: "s_status s = HANDED_OVER \<and> s_end_time s \<noteq> None"
      if "flt S_complete_shift" "\<not> flt S_mark_shift_handed_over"
        "s \<in> set (shifts d')" "s_id s = sid" for s
    proof -
      have "s \<in> set (shifts (upd_shift now sid ?fm ?d1))"
        using that by (simp add: d')
      from in_upd_shift [OF this that(4) idm] show ?thesis
        by auto
    qed
    have all: "s_status s = HANDED_OVER \<and> s_end_time s = Some now"
      if "\<not> flt S_complete_shift" "\<not> flt S_mark_shift_handed_over"
        "s \<in> set (shifts d')" "s_id s = sid" for s
    proof -
      have "s \<in> set (shifts (upd_shift now sid ?fm (upd_shift now sid ?fc ?d1)))"
        using that by (simp add: d')
      from in_upd_shift [OF this that(4) idm]
      obtain s1 where s1: "s1 \<in> set (shifts (upd_shift now sid ?fc ?d1))" "s_id s1 = sid"
        and s: "s = touch now s1 (?fm s1)"
        by blast
      from in_upd_shift [OF s1 idc]
      obtain s0 where "s1 = touch now s0 (?fc s0)"
        by blast
      then have "s_end_time s1 = Some now"
        by simp
      then show ?thesis
        using s by simp
    qed
    show ?thesis
      unfolding res fst_conv snd_conv
      using hs both compl mark all c1 c2 by blast
  qed
qed


lemma ex_partial:
  "create_handover ex_faults 20 ''summary'' 1 100 200 ex_db1
     = (Inr 1, ex_db1\<lparr>shift_handovers := [ex_handover1]\<rparr>)"
  by (simp add: create_handover_def complete_shift_def mark_shift_handed_over_def ex_faults_def
      is_guard_active_def get_guard_def get_guard_object_id_def get_object_def get_shift_def
      next_id_def ex_defs)

theorem units_of_work_commit_separately_witness:
  "fst (create_handover ex_faults 20 ''summary'' 1 100 200 ex_db1) = Inr 1
   \<and> ex_faults S_complete_shift \<and> ex_faults S_mark_shift_handed_over
   \<and> shift_handovers (snd (create_handover ex_faults 20 ''summary'' 1 100 200 ex_db1))
       = shift_handovers ex_db1 @ [new_handover 20 ''summary'' 1 1 100 200]
   \<and> shifts (snd (create_handover ex_faults 20 ''summary'' 1 100 200 ex_db1)) = shifts ex_db1
   \<and> fst (complete_shift ex_faults 20 1 ex_db1) = Inl STORE_ERROR
   \<and> snd (complete_shift ex_faults 20 1 ex_db1) = ex_db1"
proof -
  have r: "fst (create_handover ex_faults 20 ''summary'' 1 100 200 ex_db1) = Inr 1"
    by (simp add: ex_partial)
  have f: "ex_faults S_complete_shift \<and> ex_faults S_mark_shift_handed_over"
    by (simp add: ex_faults_def)
  have c: "fst (complete_shift ex_faults 20 1 ex_db1) = Inl STORE_ERROR"
    by (simp add: complete_shift_def ex_faults_def)
  show ?thesis
    using units_of_work_commit_separately
      [where flt = ex_faults and now = 20 and sid = 1 and d = ex_db1
         and summary = "''summary''" and by_id = 100 and to_id = 200]
      r f c
    by simp
qed

text \<open>
  C3 as stated fails. With a store that raises in the units of work of \<open>complete_shift\<close> and
  \<open>mark_shift_handed_over\<close>, CreateHandover on the ACTIVE shift 1 returns the new handover
  id, the PENDING handover row is committed, and shift 1 is still ACTIVE with no
  \<open>end_time\<close>; no error reaches the caller.
\<close>

theorem create_handover_partial_commit:
  "create_handover ex_faults 20 ''summary'' 1 100 200 ex_db1
     = (Inr 1, ex_db1\<lparr>shift_handovers := [ex_handover1]\<rparr>)
   \<and> shifts (ex_db1\<lparr>shift_handovers := [ex_handover1]\<rparr>) = [ex_shift1]
   \<and> s_status ex_shift1 = ACTIVE \<and> s_end_time ex_shift1 = None
   \<and> h_status ex_handover1 = PENDING"
  using ex_partial by (simp add: ex_defs)

section \<open>CancelHandover\<close>










section \<open>The session layer on a lock error\<close>

text \<open>
  C4 fails on the code. A block under \<open>with get_session(3)\<close> that raises SQLite's
  ``database is locked'' is run once and never again: the generator rolls back, sleeps
  0.5 s, closes the session and, back at the loop head, yields a second time, which
  \<open>contextlib\<close> answers with a \<open>RuntimeError\<close>. No second attempt is made, although the block
  would have succeeded.
\<close>

theorem get_session_lock_error_not_retried:
  "with_session 3 ex_body None
     = (Some (RuntimeError Didnt_Stop_After_Throw), [RunBody, Rollback, Sleep (1 / 2), Close])
   \<and> ex_body 1 = None"
  by (simp add: with_session_def get_session_start_def loop_head_def on_exception_def
      ex_body_def is_locked_def lower_def)

text \<open>
  What does hold of \<open>get_session\<close>: any error that is not a lock error is rolled back, logged
  and raised again at once, with the session closed; a block that ends normally is
  committed and the session closed.
\<close>

lemma get_session_other_error:
  assumes "0 < max_retries" and "body 0 = Some e"
    and "\<forall>msg. e = StoreError msg \<longrightarrow> \<not> is_locked msg"
  shows "with_session max_retries body c = (Some e, [RunBody, Rollback, LogError, Close])"
  using assms
  by (cases e)
    (simp_all add: with_session_def get_session_start_def loop_head_def on_exception_def)

lemma get_session_success:
  assumes "0 < max_retries" and "body 0 = None"
  shows "with_session max_retries body None = (None, [RunBody, Commit, Close])"
  using assms by (simp add: with_session_def get_session_start_def loop_head_def)

section \<open>AcceptHandover twice\<close>

lemma accepted_row_fields [simp]:
  "h_id (accepted_row now wn notes h) = h_id h"
  "h_shift_id (accepted_row now wn notes h) = h_shift_id h"
  "h_handover_by_id (accepted_row now wn notes h) = h_handover_by_id h"
  "h_handover_to_id (accepted_row now wn notes h) = h_handover_to_id h"
  "h_status (accepted_row now wn notes h) \<noteq> PENDING"
  "(h_status (accepted_row now wn notes h) = ACCEPTED_WITH_NOTES) = has_notes wn notes"
  by (simp_all add: accepted_row_def)





section \<open>Acceptance without notes\<close>










section \<open>EndShift\<close>












section \<open>RejectHandover\<close>













section \<open>The end-time invariant\<close>

lemma shift_inv_other_tables [simp]:
  "shift_inv (d\<lparr>reports := rs\<rparr>) = shift_inv d"
  "shift_inv (d\<lparr>shift_handovers := hs\<rparr>) = shift_inv d"
  by (simp_all add: shift_inv_def)

lemma shift_inv_upd_shift:
  assumes "shift_inv d"
    and "\<And>s. (s_end_time s \<noteq> None) = (s_status s \<noteq> ACTIVE)
            \<Longrightarrow> (s_end_time (f s) \<noteq> None) = (s_status (f s) \<noteq> ACTIVE)"
  shows "shift_inv (upd_shift now sid f d)"
proof -
  let ?ok = "\<lambda>s. (s_end_time s \<noteq> None) = (s_status s \<noteq> ACTIVE)"
  let ?g = "\<lambda>s. if s_id s = sid then touch now s (f s) else s"
  have a: "?ok s" if "s \<in> set (shifts d)" for s
    using assms(1) that by (simp add: shift_inv_def)
  have b: "?ok (?g s)" if "?ok s" for s
    using assms(2) [OF that] that by simp
  have "?ok s" if "s \<in> set (map ?g (shifts d))" for s
  proof -
    have "s \<in> ?g ` set (shifts d)"
      using that unfolding set_map .
    then obtain x where "s = ?g x" and "x \<in> set (shifts d)"
      by (rule imageE)
    then show ?thesis
      using a [of x] b [of x] by simp
  qed
  then show ?thesis
    unfolding shift_inv_def upd_shift_def by simp
qed

lemma shift_inv_create_shift:
  "shift_inv d \<Longrightarrow> shift_inv (snd (create_shift flt now g d))"
  by (simp add: create_shift_def shift_inv_def Let_def split: option.splits)

lemma shift_inv_complete_shift:
  "shift_inv d \<Longrightarrow> shift_inv (snd (complete_shift flt now sid d))"
  by (simp add: complete_shift_def shift_inv_upd_shift split: option.splits)

lemma shift_inv_mark_shift_handed_over:
  "shift_inv d \<Longrightarrow> shift_inv (snd (mark_shift_handed_over flt now sid d))"
  by (simp add: mark_shift_handed_over_def shift_inv_upd_shift split: option.splits)

lemma shift_inv_delete_shift:
  "shift_inv d \<Longrightarrow> shift_inv (snd (delete_shift flt sid d))"
  by (simp add: delete_shift_def shift_inv_def split: option.splits)

lemma shift_inv_restore:
  "shift_inv d \<Longrightarrow>
   shift_inv (upd_shift now sid (\<lambda>s. s\<lparr>s_status := ACTIVE, s_end_time := None\<rparr>) d)"
  by (rule shift_inv_upd_shift) simp_all

lemma shift_inv_update_shift_other_columns:
  assumes "shift_inv d"
  shows "shift_inv (snd (update_shift flt now sid g ob st None None d))"
proof -
  have "shift_inv (upd_shift now sid F d)"
    if "\<And>s. s_end_time (F s) = s_end_time s \<and> s_status (F s) = s_status s" for F
    using assms that by (intro shift_inv_upd_shift) simp_all
  then show ?thesis
    using assms
    by (cases g; cases ob; cases st)
      (simp_all add: update_shift_def split: option.splits)
qed

lemma shift_inv_case_delete:
  "shift_inv d \<Longrightarrow>
   shift_inv (case x of None \<Rightarrow> d | Some a \<Rightarrow> snd (delete_shift flt (s_id a) d))"
  by (cases x) (simp_all add: shift_inv_delete_shift)

lemma shift_inv_cancel_handover:
  assumes "shift_inv d"
  shows "shift_inv (snd (cancel_handover flt now hid by_id force d))"
proof (cases "find (\<lambda>h. h_id h = hid) (shift_handovers d)")
  case None
  then show ?thesis
    using assms by (simp add: cancel_handover_def)
next
  case (Some h)
  show ?thesis
    using Some assms
    by (simp add: cancel_handover_def Let_def shift_inv_restore shift_inv_case_delete)
qed

text \<open>
  C9, as amended. If every shift row has \<open>end_time\<close> set exactly when its status is not
  ACTIVE, then the same holds after \<open>create_shift\<close>, \<open>complete_shift\<close>,
  \<open>mark_shift_handed_over\<close> and \<open>cancel_handover\<close> (with its restore of the source shift), on
  any store, whether they succeed or fail; and after \<open>update_shift\<close> when it is given
  neither an \<open>end_time\<close> nor a status. \<open>update_shift\<close> with a status or an \<open>end_time\<close> writes
  the one column without the other and is not covered.
\<close>

theorem shift_inv_preserved:
  assumes "shift_inv d"
  shows "shift_inv (snd (create_shift flt now g d))
         \<and> shift_inv (snd (complete_shift flt now sid d))
         \<and> shift_inv (snd (mark_shift_handed_over flt now sid d))
         \<and> shift_inv (snd (cancel_handover flt now hid by_id force d))
         \<and> shift_inv (snd (update_shift flt now sid g' ob st None None d))"
  using assms
  by (intro conjI shift_inv_create_shift shift_inv_complete_shift
      shift_inv_mark_shift_handed_over shift_inv_cancel_handover
      shift_inv_update_shift_other_columns)

theorem shift_inv_preserved_witness:
  "shift_inv ex_db2
   \<and> shift_inv (snd (create_shift no_faults 25 150 ex_db2))
   \<and> shift_inv (snd (complete_shift no_faults 25 1 ex_db2))
   \<and> shift_inv (snd (mark_shift_handed_over no_faults 25 1 ex_db2))
   \<and> shift_inv (snd (cancel_handover no_faults 25 1 100 False ex_db2))
   \<and> shift_inv (snd (update_shift no_faults 25 1 (Some 150) None None None None ex_db2))"
proof -
  have i: "shift_inv ex_db2"
    by (simp add: shift_inv_def ex_defs)
  show ?thesis
    using i shift_inv_preserved
      [OF i, where flt = no_faults and now = 25 and g = 150 and sid = 1 and hid = 1
         and by_id = 100 and force = False and g' = "Some 150" and ob = None and st = None]
    by simp
qed

text \<open>
  C9 as stated fails for \<open>update_shift\<close>: on the ACTIVE shift 1, which has no \<open>end_time\<close>,
  \<open>update_shift(1, status='COMPLETED')\<close> (what the web console's shift form sends when only
  the status is changed) succeeds and leaves a COMPLETED shift without \<open>end_time\<close>.
\<close>

theorem update_shift_breaks_shift_inv:
  "shift_inv ex_db1
   \<and> fst (update_shift no_faults 15 1 None None None None (Some COMPLETED) ex_db1) = Inr ()
   \<and> shifts (snd (update_shift no_faults 15 1 None None None None (Some COMPLETED) ex_db1))
       = [ex_shift1\<lparr>s_status := COMPLETED, s_updated_at := 15\<rparr>]
   \<and> \<not> shift_inv (snd (update_shift no_faults 15 1 None None None None (Some COMPLETED) ex_db1))"
  by (simp add: update_shift_def upd_shift_def touch_def shift_inv_def no_faults_def ex_defs)

end
